theory Spec2Isabelle
  imports Complex_Main "HOL-Library.Word" "HOL-Library.Sublist"
begin

section \<open>JavaScript strings\<close>

text \<open>
  A JavaScript string is a sequence of 16-bit code units; \<open>.length\<close> counts code units.
  String literals of the source that are plain ASCII are written \<open>lit ''...''\<close>.
\<close>

type_synonym jschar = "16 word"
type_synonym jsstring = "jschar list"

definition lit :: "string \<Rightarrow> jsstring" where
  "lit s = map of_char s"

definition nl :: jsstring where
  "nl = [0x0A]"

definition dquote :: jsstring where
  "dquote = [0x22]"

text \<open>
  The three non-ASCII marks of \<open>part_002\<close>, as the code units of the characters that stand
  in the source file (lines 196, 197 and 202, and the list of lines 346 to 349).
\<close>

definition booksMark :: jsstring where
  "booksMark = [0xF0, 0x178, 0x201C, 0x161]"

definition bulletMark :: jsstring where
  "bulletMark = [0xE2, 0x20AC, 0xA2]"

definition linkMark :: jsstring where
  "linkMark = [0xF0, 0x178, 0x201D, 0x2014]"

text \<open>\<open>\s\<close> of a regular expression and the characters \<open>trim\<close> removes: WhiteSpace and LineTerminator.\<close>

definition isWhiteSpace :: "jschar \<Rightarrow> bool" where
  "isWhiteSpace c =
     ((0x09 \<le> c \<and> c \<le> 0x0D) \<or> c = 0x20 \<or> c = 0xA0 \<or> c = 0x1680
      \<or> (0x2000 \<le> c \<and> c \<le> 0x200A) \<or> c = 0x2028 \<or> c = 0x2029 \<or> c = 0x202F
      \<or> c = 0x205F \<or> c = 0x3000 \<or> c = 0xFEFF)"

definition trim :: "jsstring \<Rightarrow> jsstring" where
  "trim s = rev (dropWhile isWhiteSpace (rev (dropWhile isWhiteSpace s)))"

text \<open>
  \<open>toLowerCase\<close>, code unit by code unit. The mapping is the Unicode one on Basic Latin and
  the Latin-1 Supplement; code units from U+0100 on are left as they are (the Unicode case
  tables beyond Latin-1 are not part of this development). No proof below of a statement
  about all strings unfolds this definition.
\<close>

definition lowerUnit :: "jschar \<Rightarrow> jschar" where
  "lowerUnit c =
     (if (0x41 \<le> c \<and> c \<le> 0x5A) \<or> (0xC0 \<le> c \<and> c \<le> 0xDE \<and> c \<noteq> 0xD7)
      then c + 0x20 else c)"

definition toLowerCase :: "jsstring \<Rightarrow> jsstring" where
  "toLowerCase s = map lowerUnit s"

text \<open>\<open>s.includes(w)\<close> and \<open>s.startsWith(w)\<close>.\<close>

fun includesStr :: "jsstring \<Rightarrow> jsstring \<Rightarrow> bool" where
  "includesStr [] w = (w = [])"
| "includesStr (c # cs) w = (prefix w (c # cs) \<or> includesStr cs w)"

definition startsWith :: "jsstring \<Rightarrow> jsstring \<Rightarrow> bool" where
  "startsWith s w = prefix w s"

text \<open>\<open>s.split(c)\<close> for a separator of one character: the pieces between the separators.\<close>

fun splitOn :: "jschar \<Rightarrow> jsstring \<Rightarrow> jsstring list" where
  "splitOn sep [] = [[]]"
| "splitOn sep (c # cs) =
     (if c = sep then [] # splitOn sep cs
      else (case splitOn sep cs of [] \<Rightarrow> [[c]] | p # ps \<Rightarrow> (c # p) # ps))"

text \<open>
  \<open>s.split(/[...]+/)\<close> for a character class: the separators are the maximal runs of
  characters of the class; a string that begins or ends with such a run has an empty first
  or last piece.
\<close>

function splitRuns :: "(jschar \<Rightarrow> bool) \<Rightarrow> jsstring \<Rightarrow> jsstring list" where
  "splitRuns P [] = [[]]"
| "splitRuns P (c # cs) =
     (if P c then [] # splitRuns P (dropWhile P cs)
      else (case splitRuns P cs of [] \<Rightarrow> [[c]] | p # ps \<Rightarrow> (c # p) # ps))"
  by pat_completeness auto
termination
  by (relation "measure (\<lambda>(P, cs). length cs)")
     (auto simp: length_dropWhile_le less_Suc_eq_le)

text \<open>\<open>xs.join(sep)\<close>.\<close>

fun join :: "jsstring \<Rightarrow> jsstring list \<Rightarrow> jsstring" where
  "join sep [] = []"
| "join sep [x] = x"
| "join sep (x # y # ys) = x @ sep @ join sep (y # ys)"

text \<open>
  \<open>encodeURIComponent\<close>: the unreserved characters stay, every other code point becomes the
  percent-escaped octets of its UTF-8 encoding, and a lone surrogate raises URIError
  (\<open>None\<close>).
\<close>

definition isUnreserved :: "jschar \<Rightarrow> bool" where
  "isUnreserved c =
     ((0x41 \<le> c \<and> c \<le> 0x5A) \<or> (0x61 \<le> c \<and> c \<le> 0x7A) \<or> (0x30 \<le> c \<and> c \<le> 0x39)
      \<or> c = 0x2D \<or> c = 0x5F \<or> c = 0x2E \<or> c = 0x21 \<or> c = 0x7E \<or> c = 0x2A
      \<or> c = 0x27 \<or> c = 0x28 \<or> c = 0x29)"

definition isHighSurrogate :: "jschar \<Rightarrow> bool" where
  "isHighSurrogate c = (0xD800 \<le> c \<and> c \<le> 0xDBFF)"

definition isLowSurrogate :: "jschar \<Rightarrow> bool" where
  "isLowSurrogate c = (0xDC00 \<le> c \<and> c \<le> 0xDFFF)"

definition hexDigit :: "nat \<Rightarrow> jschar" where
  "hexDigit d = (if d < 10 then 0x30 + of_nat d else 0x37 + of_nat d)"

definition percent :: "nat \<Rightarrow> jsstring" where
  "percent b = [0x25, hexDigit (b div 16), hexDigit (b mod 16)]"

definition utf8 :: "nat \<Rightarrow> nat list" where
  "utf8 v =
     (if v < 0x80 then [v]
      else if v < 0x800 then [0xC0 + v div 0x40, 0x80 + v mod 0x40]
      else if v < 0x10000 then
        [0xE0 + v div 0x1000, 0x80 + (v div 0x40) mod 0x40, 0x80 + v mod 0x40]
      else
        [0xF0 + v div 0x40000, 0x80 + (v div 0x1000) mod 0x40,
         0x80 + (v div 0x40) mod 0x40, 0x80 + v mod 0x40])"

definition escapePoint :: "nat \<Rightarrow> jsstring" where
  "escapePoint v = concat (map percent (utf8 v))"

fun encodeURIComponent :: "jsstring \<Rightarrow> jsstring option" where
  "encodeURIComponent [] = Some []"
| "encodeURIComponent [c] =
     (if isUnreserved c then Some [c]
      else if isLowSurrogate c \<or> isHighSurrogate c then None
      else Some (escapePoint (unat c)))"
| "encodeURIComponent (c # d # ds) =
     (if isUnreserved c then map_option ((#) c) (encodeURIComponent (d # ds))
      else if isLowSurrogate c then None
      else if \<not> isHighSurrogate c then
        map_option ((@) (escapePoint (unat c))) (encodeURIComponent (d # ds))
      else if isLowSurrogate d then
        map_option
          ((@) (escapePoint ((unat c - 0xD800) * 0x400 + (unat d - 0xDC00) + 0x10000)))
          (encodeURIComponent ds)
      else None)"

section \<open>The external service, errors and the random source\<close>

text \<open>
  \<open>fetch\<close> followed by \<open>response.json()\<close> either throws (the request is rejected or
  the body is not JSON) or gives the HTTP status and the parsed body. The three kinds of
  request of \<open>part_002\<close> differ in their URL only by the encoded query or title, so the
  service is three functions of that string, and the body is the part of the JSON the
  handler reads: \<open>data.query?.search || []\<close>, \<open>data[1]\<close> (\<open>[]\<close> when absent) and the entries
  of \<open>data.query?.pages || {}\<close> in the order of \<open>Object.keys\<close>.
\<close>

datatype 'a fetched = Throws jsstring | Response nat 'a

definition ok :: "nat \<Rightarrow> bool" where
  "ok status = (200 \<le> status \<and> status \<le> 299)"

record searchResult =
  title :: jsstring
  snippet :: jsstring

record page =
  pageTitle :: jsstring
  pageExtract :: "jsstring option"
  fullurl :: "jsstring option"

record wikipedia =
  search :: "jsstring \<Rightarrow> searchResult list fetched"
  opensearch :: "jsstring \<Rightarrow> jsstring list fetched"
  content :: "jsstring \<Rightarrow> (jsstring \<times> page) list fetched"

datatype request = SearchReq jsstring | OpensearchReq jsstring | ContentReq jsstring

text \<open>
  What a handler can throw: the ZodError of the schema, the URIError of
  \<open>encodeURIComponent\<close>, what \<open>fetch\<close> or \<open>json\<close> threw (with its message), and the two
  errors of lines 115 and 148 with the status they print.
\<close>

datatype exn =
    ZodError
  | URIError
  | FetchError jsstring
  | SearchFailed nat
  | ContentFailed nat

text \<open>
  \<open>Math.random()\<close> gives the next number of a sequence: \<open>nextRandom\<close> is the number the
  next call returns and \<open>afterRandom\<close> the sequence after that call. \<open>pick\<close> is
  \<open>xs[Math.floor(Math.random() * xs.length)]\<close>, with the product taken exactly: the code
  rounds it to a double first, so that for a number just below a multiple of
  \<open>1 / xs.length\<close> the code can take the next element. Only the wording of a text depends
  on the element taken, and no statement below on which one it is.
\<close>

type_synonym randomSource = "nat \<Rightarrow> rat"

definition nextRandom :: "randomSource \<Rightarrow> rat" where
  "nextRandom rnd = rnd 0"

definition afterRandom :: "randomSource \<Rightarrow> randomSource" where
  "afterRandom rnd = (\<lambda>n. rnd (Suc n))"

definition pick :: "'a list \<Rightarrow> rat \<Rightarrow> 'a" where
  "pick xs r = xs ! nat \<lfloor>r * of_nat (length xs)\<rfloor>"

section \<open>Spelling/Fallback Resolver\<close>

text \<open>
  The regular expression \<open>\bWRONG\b\<close> with the flags \<open>gi\<close>. Without the \<open>u\<close> flag a word
  character is one of \<open>[A-Za-z0-9_]\<close>, and two characters match case-insensitively when
  they canonicalize to the same character. \<open>canonicalize\<close> is that mapping on ASCII; the
  patterns of the dictionary are ASCII letters, and no code unit from U+0080 on
  canonicalizes to an ASCII character, so leaving those units as they are changes no match.
\<close>

definition isWordChar :: "jschar \<Rightarrow> bool" where
  "isWordChar c =
     ((0x41 \<le> c \<and> c \<le> 0x5A) \<or> (0x61 \<le> c \<and> c \<le> 0x7A) \<or> (0x30 \<le> c \<and> c \<le> 0x39)
      \<or> c = 0x5F)"

fun isWordAt :: "jschar option \<Rightarrow> bool" where
  "isWordAt None = False"
| "isWordAt (Some c) = isWordChar c"

definition canonicalize :: "jschar \<Rightarrow> jschar" where
  "canonicalize c = (if 0x61 \<le> c \<and> c \<le> 0x7A then c - 0x20 else c)"

text \<open>
  \<open>wordMatchAt wrong prev s\<close>: the expression matches at the beginning of \<open>s\<close>, where \<open>prev\<close>
  is the character before \<open>s\<close> in the whole string (\<open>None\<close> at its start): a word boundary,
  the characters of \<open>wrong\<close> up to case, a word boundary.
\<close>

definition wordMatchAt :: "jsstring \<Rightarrow> jschar option \<Rightarrow> jsstring \<Rightarrow> bool" where
  "wordMatchAt wrong prev s =
     (let n = length wrong in
      0 < n \<and> n \<le> length s
      \<and> map canonicalize (take n s) = map canonicalize wrong
      \<and> isWordAt prev \<noteq> isWordAt (case s of [] \<Rightarrow> None | c # _ \<Rightarrow> Some c)
      \<and> isWordChar (last (take n s))
          \<noteq> isWordAt (case drop n s of [] \<Rightarrow> None | d # _ \<Rightarrow> Some d))"

text \<open>
  \<open>s.replace(new RegExp(`\\b${wrong}\\b`, 'gi'), right)\<close>: the matches are looked for from
  left to right in the string as it was, each is replaced by \<open>right\<close>, and the search goes
  on behind the match. (\<open>right\<close> has no \<open>$\<close> in the dictionary.)
\<close>

fun replaceWord :: "jsstring \<Rightarrow> jsstring \<Rightarrow> jschar option \<Rightarrow> jsstring \<Rightarrow> jsstring" where
  "replaceWord wrong right prev [] = []"
| "replaceWord wrong right prev (c # cs) =
     (if wordMatchAt wrong prev (c # cs)
      then right @ replaceWord wrong right (Some (last (take (length wrong) (c # cs))))
                     (drop (length wrong - 1) cs)
      else c # replaceWord wrong right (Some c) cs)"

text \<open>The dictionary of lines 376 to 428, in the order of \<open>Object.entries\<close>.\<close>

definition corrections :: "(jsstring \<times> jsstring) list" where
  "corrections =
     [
      (lit ''phisics'', lit ''physics''), (lit ''chemestry'', lit ''chemistry''),
      (lit ''biology'', lit ''biology''), (lit ''psycology'', lit ''psychology''),
      (lit ''psichology'', lit ''psychology''), (lit ''philosphy'', lit ''philosophy''),
      (lit ''mathamatics'', lit ''mathematics''), (lit ''algorythm'', lit ''algorithm''),
      (lit ''artficial'', lit ''artificial''), (lit ''inteligence'', lit ''intelligence''),
      (lit ''quantem'', lit ''quantum''), (lit ''quantam'', lit ''quantum''),
      (lit ''histery'', lit ''history''), (lit ''ancent'', lit ''ancient''),
      (lit ''medeval'', lit ''medieval''), (lit ''rennaissance'', lit ''renaissance''),
      (lit ''napoleen'', lit ''napoleon''), (lit ''shakespeare'', lit ''shakespeare''),
      (lit ''einstien'', lit ''einstein''), (lit ''davinci'', lit ''da vinci''),
      (lit ''geograpy'', lit ''geography''), (lit ''contry'', lit ''country''),
      (lit ''counrty'', lit ''country''), (lit ''mountian'', lit ''mountain''),
      (lit ''oceean'', lit ''ocean''), (lit ''desert'', lit ''desert''),
      (lit ''forrest'', lit ''forest''), (lit ''tecnology'', lit ''technology''),
      (lit ''compuer'', lit ''computer''), (lit ''programing'', lit ''programming''),
      (lit ''sofware'', lit ''software''), (lit ''hardwar'', lit ''hardware''),
      (lit ''intrnet'', lit ''internet''), (lit ''websit'', lit ''website''),
      (lit ''becuase'', lit ''because''), (lit ''recieve'', lit ''receive''),
      (lit ''seperate'', lit ''separate''), (lit ''definately'', lit ''definitely''),
      (lit ''occured'', lit ''occurred''), (lit ''begining'', lit ''beginning''),
      (lit ''goverment'', lit ''government''), (lit ''enviroment'', lit ''environment'')
     ]"

definition correctCommonMisspellings :: "jsstring \<Rightarrow> jsstring" where
  "correctCommonMisspellings query =
     foldl (\<lambda>corrected (wrong, right). replaceWord wrong right None corrected)
       (toLowerCase query) corrections"

text \<open>
  \<open>attemptSpellCorrection\<close>, with the requests it sends. Everything is inside the
  \<open>try\<close>: a URIError of \<open>encodeURIComponent\<close> and a failing \<open>fetch\<close> or \<open>json\<close> end in the
  \<open>catch\<close>, which returns the query. \<open>data[1][0]\<close> is truthy when the first suggestion is
  there and not the empty string. The status of the response is not looked at.
\<close>

definition attemptSpellCorrection :: "wikipedia \<Rightarrow> jsstring \<Rightarrow> jsstring \<times> request list" where
  "attemptSpellCorrection w query =
     (case encodeURIComponent query of
        None \<Rightarrow> (query, [])
      | Some _ \<Rightarrow>
          (case opensearch w query of
             Throws m \<Rightarrow> (query, [OpensearchReq query])
           | Response status suggestions \<Rightarrow>
               (case suggestions of
                  [] \<Rightarrow> (correctCommonMisspellings query, [OpensearchReq query])
                | first # _ \<Rightarrow>
                    if first \<noteq> [] then (first, [OpensearchReq query])
                    else (correctCommonMisspellings query, [OpensearchReq query]))))"

text \<open>
  A misspelling occurs in a string as a whole word when the expression matches at one of
  its positions.
\<close>

definition occursAsWord :: "jsstring \<Rightarrow> jsstring \<Rightarrow> bool" where
  "occursAsWord wrong s =
     (\<exists>i \<in> set [0..<length s].
        wordMatchAt wrong (if i = 0 then None else Some (s ! (i - 1))) (drop i s))"

text \<open>No misspelling of the dictionary occurs in a string as a whole word.\<close>

definition noMisspelling :: "jsstring \<Rightarrow> bool" where
  "noMisspelling s = (\<forall>(wrong, right) \<in> set corrections. \<not> occursAsWord wrong s)"

section \<open>Relevance Extractor\<close>

text \<open>
  \<open>xs.sort(cmp)\<close> is stable: the sorted list, elements that compare equal in their
  original order. \<open>insertBy\<close> puts an element in front of a list that is sorted already.
\<close>

fun insertBy :: "('a \<Rightarrow> 'a \<Rightarrow> int) \<Rightarrow> 'a \<Rightarrow> 'a list \<Rightarrow> 'a list" where
  "insertBy cmp x [] = [x]"
| "insertBy cmp x (y # ys) = (if cmp x y \<le> 0 then x # y # ys else y # insertBy cmp x ys)"

definition sortBy :: "('a \<Rightarrow> 'a \<Rightarrow> int) \<Rightarrow> 'a list \<Rightarrow> 'a list" where
  "sortBy cmp xs = foldr (insertBy cmp) xs []"

record scored =
  paragraph' :: jsstring
  score :: int

text \<open>Line 209: the words of the question.\<close>

definition queryWords :: "jsstring \<Rightarrow> jsstring list" where
  "queryWords question =
     filter (\<lambda>word. 3 < length word) (splitRuns isWhiteSpace (toLowerCase question))"

text \<open>Lines 213 to 220: the score of one paragraph.\<close>

definition paragraphScore :: "jsstring list \<Rightarrow> jsstring \<Rightarrow> int" where
  "paragraphScore words p =
     foldl (\<lambda>sc word.
              if includesStr (toLowerCase p) word
              then sc + (if 3 < length word then 2 else 1) else sc)
       0 words"

definition blankLine :: jsstring where
  "blankLine = nl @ nl"

definition extractRelevantContent :: "jsstring list \<Rightarrow> jsstring \<Rightarrow> jsstring" where
  "extractRelevantContent paragraphs question =
     (let words = queryWords question;
          scoredParagraphs =
            map (\<lambda>p. \<lparr>paragraph' = trim p, score = paragraphScore words p\<rparr>) paragraphs;
          selectedParagraphs =
            take 3 (sortBy (\<lambda>a b. score b - score a) scoredParagraphs)
      in case selectedParagraphs of
           [] \<Rightarrow> join blankLine (take 2 paragraphs)
         | best # _ \<Rightarrow>
             if score best = 0 then join blankLine (take 2 paragraphs)
             else join blankLine (map paragraph' selectedParagraphs))"

text \<open>Line 187: the paragraphs of an extract.\<close>

definition articleParagraphs :: "jsstring \<Rightarrow> jsstring list" where
  "articleParagraphs ex = filter (\<lambda>p. 50 < length (trim p)) (splitOn 0x0A ex)"

section \<open>Response Synthesizer\<close>

definition generateNoResultResponse :: "jsstring \<Rightarrow> randomSource \<Rightarrow> jsstring \<times> randomSource" where
  "generateNoResultResponse question rnd =
     (let encouragingResponses =
            [lit ''Hmm, I couldn't find specific information about that topic on Wikipedia.'',
             lit ''That's a tricky one! I wasn't able to locate relevant Wikipedia articles for that question.'',
             lit ''Interesting question, but I'm having trouble finding Wikipedia content that matches what you're looking for.'',
             lit ''I searched through Wikipedia but couldn't find detailed information on that specific topic.''];
          response = pick encouragingResponses (nextRandom rnd)
      in (response @ nl @ nl
          @ lit ''**Here are some ways we can try to get better results:**'' @ nl
          @ bulletMark @ lit '' Try rephrasing with different keywords or terms'' @ nl
          @ bulletMark
          @ lit '' Check if it might be a very recent topic (Wikipedia might not have coverage yet)''
          @ nl
          @ bulletMark
          @ lit '' Consider asking about a broader or more general version of the topic'' @ nl
          @ bulletMark @ lit '' Make sure the topic has an established Wikipedia page'' @ nl
          @ nl
          @ lit ''**Your search:** '' @ dquote @ question @ dquote @ nl
          @ nl
          @ lit ''Feel free to try asking in a different way - I'm here to help!'',
          afterRandom rnd))"

datatype questionType = What | How | Why | When | Compare | General

definition detectQuestionType :: "jsstring \<Rightarrow> questionType" where
  "detectQuestionType question =
     (let lowerQuestion = toLowerCase question in
      if startsWith lowerQuestion (lit ''what'') \<or> includesStr lowerQuestion (lit ''what is'')
         \<or> includesStr lowerQuestion (lit ''what are'') then What
      else if startsWith lowerQuestion (lit ''how'') \<or> includesStr lowerQuestion (lit ''how does'')
         \<or> includesStr lowerQuestion (lit ''how to'') then How
      else if startsWith lowerQuestion (lit ''why'') \<or> includesStr lowerQuestion (lit ''why is'')
         \<or> includesStr lowerQuestion (lit ''why does'') then Why
      else if startsWith lowerQuestion (lit ''when'') \<or> includesStr lowerQuestion (lit ''when did'')
         \<or> includesStr lowerQuestion (lit ''when was'') then When
      else if includesStr lowerQuestion (lit ''compare'')
         \<or> includesStr lowerQuestion (lit ''difference'')
         \<or> includesStr lowerQuestion (lit ''vs'') then Compare
      else General)"

text \<open>
  Lines 304 to 326, the function mapped over the sentences: \<open>Math.random()\<close> is called
  once, once more when a connector is put in front, and once more only when the sentence
  is longer than 100 characters.
\<close>

definition conversationalSentence :: "jsstring \<Rightarrow> randomSource \<Rightarrow> jsstring \<times> randomSource" where
  "conversationalSentence sentence rnd =
     (let s1 = trim sentence;
          connectors =
            [lit ''Essentially, '', lit ''In simple terms, '', lit ''Basically, '',
             lit ''Put simply, '', lit ''Here's the thing - '',
             lit ''What's interesting is that ''];
          (s2, rnd1) =
            (if 7 / 10 < nextRandom rnd
             then (pick connectors (nextRandom (afterRandom rnd)) @ toLowerCase s1, afterRandom (afterRandom rnd))
             else (s1, afterRandom rnd))
      in if 100 < length s2
         then ((if 1 / 2 < nextRandom rnd1 then lit ''**'' @ s2 @ lit ''**'' else s2), afterRandom rnd1)
         else (s2, rnd1))"

fun mapSentences :: "jsstring list \<Rightarrow> randomSource \<Rightarrow> jsstring list \<times> randomSource" where
  "mapSentences [] rnd = ([], rnd)"
| "mapSentences (s # ss) rnd =
     (case conversationalSentence s rnd of
        (t, rnd1) \<Rightarrow> (case mapSentences ss rnd1 of (ts, rnd2) \<Rightarrow> (t # ts, rnd2)))"

definition isTerminator :: "jschar \<Rightarrow> bool" where
  "isTerminator c = (c = 0x2E \<or> c = 0x21 \<or> c = 0x3F)"

definition makeContentConversational ::
  "jsstring \<Rightarrow> questionType \<Rightarrow> randomSource \<Rightarrow> jsstring \<times> randomSource" where
  "makeContentConversational content' qt rnd =
     (let sentences =
            filter (\<lambda>s. 10 < length (trim s)) (splitRuns isTerminator content');
          connectors =
            [lit ''. '', lit ''. Additionally, '', lit ''. Also, '', lit ''. What's more, '',
             lit ''. Interestingly, '']
      in case mapSentences (take 4 sentences) rnd of
           (processedSentences, rnd1) \<Rightarrow>
             (join (pick connectors (nextRandom rnd1)) processedSentences, afterRandom rnd1))"

text \<open>
  \<open>generateConversationalResponse\<close>; its fourth parameter, the article, is not read in
  the source and is left out.
\<close>

definition generateConversationalResponse ::
  "jsstring \<Rightarrow> jsstring \<Rightarrow> jsstring \<Rightarrow> randomSource \<Rightarrow> jsstring \<times> randomSource" where
  "generateConversationalResponse question ttl content' rnd =
     (let qt = detectQuestionType question;
          conversationalIntros =
            [lit ''Great question! Let me tell you about'', lit ''I'd be happy to explain'',
             lit ''Here's what I can share about'',
             lit ''That's an interesting topic! From what I know,'',
             lit ''Let me break this down for you -'', lit ''This is a fascinating subject!''];
          intro = pick conversationalIntros (nextRandom rnd);
          opening =
            (case qt of
               What \<Rightarrow> intro @ lit '' **'' @ ttl @ lit ''**.'' @ nl @ nl
             | How \<Rightarrow> intro @ lit '' Here's how '' @ toLowerCase ttl @ lit '' works:'' @ nl @ nl
             | Why \<Rightarrow>
                 intro @ lit '' The reasoning behind '' @ toLowerCase ttl @ lit '':'' @ nl @ nl
             | When \<Rightarrow>
                 intro @ lit '' Looking at the timeline of '' @ toLowerCase ttl @ lit '':''
                 @ nl @ nl
             | _ \<Rightarrow> intro @ lit '' **'' @ ttl @ lit ''**:'' @ nl @ nl);
          conclusions =
            [nl @ nl @ lit ''Hope this helps clarify things!'',
             nl @ nl @ lit ''Pretty fascinating stuff, right?'',
             nl @ nl @ lit ''There's definitely more to explore on this topic!'',
             nl @ nl @ lit ''Let me know if you'd like to dive deeper into any aspect!'',
             nl @ nl
             @ lit ''This is just scratching the surface - there's so much more to discover!'']
      in case makeContentConversational content' qt (afterRandom rnd) of
           (processedContent, rnd1) \<Rightarrow>
             (opening @ processedContent @ pick conclusions (nextRandom rnd1), afterRandom rnd1))"

text \<open>\<open>a || b\<close> on strings that may be absent: \<open>a\<close> unless it is absent or empty.\<close>

definition truthy :: "jsstring option \<Rightarrow> bool" where
  "truthy v = (case v of None \<Rightarrow> False | Some s \<Rightarrow> s \<noteq> [])"

definition sourcesHeader :: jsstring where
  "sourcesHeader = lit ''**'' @ booksMark @ lit '' Sources & Further Reading:**'' @ nl"

definition sourceBullet :: "jsstring \<Rightarrow> jsstring \<Rightarrow> jsstring" where
  "sourceBullet ttl url =
     bulletMark @ lit '' ['' @ ttl @ lit '' on Wikipedia]('' @ url @ lit '')'' @ nl"

definition relatedLine :: "searchResult list \<Rightarrow> jsstring" where
  "relatedLine searchResults =
     (if 1 < length searchResults
      then nl @ lit ''**'' @ linkMark @ lit '' You might also be interested in:** ''
           @ join (lit '', '') (map title (take 2 (drop 1 searchResults)))
      else [])"

text \<open>Line 184: the address of the article; the right operand of \<open>||\<close> is evaluated, and
  can throw, only when \<open>fullurl\<close> is absent or empty.\<close>

definition articleUrl :: "page \<Rightarrow> exn + jsstring" where
  "articleUrl article =
     (if truthy (fullurl article) then Inr (the (fullurl article))
      else (case encodeURIComponent
                   (map (\<lambda>c. if c = 0x20 then 0x5F else c) (pageTitle article)) of
              None \<Rightarrow> Inl URIError
            | Some e \<Rightarrow> Inr (lit ''https://en.wikipedia.org/wiki/'' @ e)))"

definition generateWikipediaResponse ::
  "jsstring \<Rightarrow> page option \<Rightarrow> searchResult list \<Rightarrow> randomSource \<Rightarrow> exn + jsstring" where
  "generateWikipediaResponse question article searchResults rnd =
     (case article of
        None \<Rightarrow> Inr (fst (generateNoResultResponse question rnd))
      | Some a \<Rightarrow>
          if \<not> truthy (pageExtract a) then Inr (fst (generateNoResultResponse question rnd))
          else
            (case articleUrl a of
               Inl e \<Rightarrow> Inl e
             | Inr url \<Rightarrow>
                 (let paragraphs = articleParagraphs (the (pageExtract a));
                      relevantContent = extractRelevantContent paragraphs question;
                      conversationalResponse =
                        fst (generateConversationalResponse question (pageTitle a)
                               relevantContent rnd)
                  in Inr (conversationalResponse @ nl @ nl @ sourcesHeader
                          @ sourceBullet (pageTitle a) url @ relatedLine searchResults))))"

section \<open>Pipeline Orchestrator: \<open>POST /api/wikipedia/process\<close>\<close>

text \<open>
  The JSON the handler sends, with the status of the HTTP response; \<open>error\<close> holds the
  error whose message is sent.
\<close>

record answer =
  httpStatus :: nat
  success :: bool
  response :: "jsstring option"
  sources :: "jsstring list option"
  processingTime :: "int option"
  error :: "exn option"

text \<open>Lines 164 to 170: the \<open>catch\<close> of the handler.\<close>

definition failure :: "exn \<Rightarrow> answer" where
  "failure e =
     \<lparr>httpStatus = 500, success = False, response = None, sources = None,
      processingTime = None, error = Some e\<rparr>"

text \<open>
  Lines 120 to 129: with no result, the corrected query is searched for when it differs
  from the question. The status of this second response is not looked at.
\<close>

definition retrySearch ::
  "wikipedia \<Rightarrow> jsstring \<Rightarrow> searchResult list \<Rightarrow> (exn + searchResult list) \<times> request list"
  where
  "retrySearch w question found =
     (if found = [] then
        (case attemptSpellCorrection w question of
           (correctedQuery, calls) \<Rightarrow>
             if correctedQuery \<noteq> question then
               (case encodeURIComponent correctedQuery of
                  None \<Rightarrow> (Inl URIError, calls)
                | Some _ \<Rightarrow>
                    (case search w correctedQuery of
                       Throws m \<Rightarrow> (Inl (FetchError m), calls @ [SearchReq correctedQuery])
                     | Response status found' \<Rightarrow>
                         (Inr found', calls @ [SearchReq correctedQuery])))
             else (Inr found, calls))
      else (Inr found, []))"

text \<open>
  Lines 131 to 163: the answer for the search results. \<open>pages[Object.keys(pages)[0]]\<close> is
  the first page, and \<open>undefined\<close> when there is none.
\<close>

definition answerFrom ::
  "wikipedia \<Rightarrow> randomSource \<Rightarrow> int \<Rightarrow> int \<Rightarrow> jsstring \<Rightarrow> searchResult list
     \<Rightarrow> answer \<times> request list" where
  "answerFrom w rnd startTime endTime question searchResults =
     (case searchResults of
        [] \<Rightarrow>
          (\<lparr>httpStatus = 200, success = True,
            response = Some (fst (generateNoResultResponse question rnd)),
            sources = Some [], processingTime = Some (endTime - startTime), error = None\<rparr>,
           [])
      | bestMatch # _ \<Rightarrow>
          (case encodeURIComponent (title bestMatch) of
             None \<Rightarrow> (failure URIError, [])
           | Some _ \<Rightarrow>
               (case content w (title bestMatch) of
                  Throws m \<Rightarrow> (failure (FetchError m), [ContentReq (title bestMatch)])
                | Response status pages \<Rightarrow>
                    if \<not> ok status
                    then (failure (ContentFailed status), [ContentReq (title bestMatch)])
                    else
                      (case generateWikipediaResponse question
                              (case pages of [] \<Rightarrow> None | (pageId, article) # _ \<Rightarrow> Some article)
                              searchResults rnd of
                         Inl e \<Rightarrow> (failure e, [ContentReq (title bestMatch)])
                       | Inr text \<Rightarrow>
                           (\<lparr>httpStatus = 200, success = True, response = Some text,
                             sources = Some (map title searchResults),
                             processingTime = Some (endTime - startTime), error = None\<rparr>,
                            [ContentReq (title bestMatch)])))))"

text \<open>
  The handler of lines 100 to 171 on a body whose \<open>question\<close> is a string. It gives the
  answer and the requests sent to the external service, in their order. \<open>startTime\<close> and
  \<open>endTime\<close> are what the two calls of \<open>Date.now()\<close> return.
\<close>

definition processQuestion ::
  "wikipedia \<Rightarrow> randomSource \<Rightarrow> int \<Rightarrow> int \<Rightarrow> jsstring \<Rightarrow> answer \<times> request list" where
  "processQuestion w rnd startTime endTime question =
     (if length question < 1 \<or> 1000 < length question then (failure ZodError, [])
      else
        (case encodeURIComponent question of
           None \<Rightarrow> (failure URIError, [])
         | Some _ \<Rightarrow>
             (case search w question of
                Throws m \<Rightarrow> (failure (FetchError m), [SearchReq question])
              | Response status found \<Rightarrow>
                  if \<not> ok status then (failure (SearchFailed status), [SearchReq question])
                  else
                    (case retrySearch w question found of
                       (Inl e, calls) \<Rightarrow> (failure e, SearchReq question # calls)
                     | (Inr searchResults, calls) \<Rightarrow>
                         (case answerFrom w rnd startTime endTime question searchResults of
                            (a, calls') \<Rightarrow> (a, SearchReq question # calls @ calls'))))))"

section \<open>Example services\<close>

text \<open>Concrete services and articles, on which the theorems below are run.\<close>

definition offline :: wikipedia where
  "offline =
     \<lparr>search = (\<lambda>q. Throws (lit ''fetch failed'')),
      opensearch = (\<lambda>q. Throws (lit ''fetch failed'')),
      content = (\<lambda>t. Throws (lit ''fetch failed''))\<rparr>"

definition silent :: wikipedia where
  "silent =
     \<lparr>search = (\<lambda>q. Response 200 []),
      opensearch = (\<lambda>q. Response 200 []),
      content = (\<lambda>t. Response 200 [])\<rparr>"

definition fooResult :: searchResult where
  "fooResult = \<lparr>title = lit ''Foo'', snippet = lit ''foo is a placeholder name''\<rparr>"

definition barResult :: searchResult where
  "barResult = \<lparr>title = lit ''Bar'', snippet = lit ''bar follows foo''\<rparr>"

definition fooExtract :: jsstring where
  "fooExtract =
     lit ''Foo is a placeholder name used in computer programming examples.'' @ nl
     @ lit ''History'' @ nl
     @ lit ''The word has been common in technical writing since the sixties.''"

definition fooPage :: page where
  "fooPage =
     \<lparr>pageTitle = lit ''Foo'', pageExtract = Some fooExtract,
      fullurl = Some (lit ''https://en.wikipedia.org/wiki/Foo'')\<rparr>"

definition missingFoo :: page where
  "missingFoo = \<lparr>pageTitle = lit ''Foo'', pageExtract = None, fullurl = None\<rparr>"

definition contentDown :: wikipedia where
  "contentDown =
     \<lparr>search = (\<lambda>q. Response 200 [fooResult]),
      opensearch = (\<lambda>q. Response 200 []),
      content = (\<lambda>t. Throws (lit ''fetch failed''))\<rparr>"

definition missingPage :: wikipedia where
  "missingPage =
     \<lparr>search = (\<lambda>q. Response 200 [fooResult]),
      opensearch = (\<lambda>q. Response 200 []),
      content = (\<lambda>t. Response 200 [(lit ''-1'', missingFoo)])\<rparr>"

definition fooService :: wikipedia where
  "fooService =
     \<lparr>search = (\<lambda>q. if q = lit ''fooo'' then Response 200 []
                     else Response 200 [fooResult, barResult]),
      opensearch = (\<lambda>q. Response 200 [lit ''Foo'']),
      content = (\<lambda>t. Response 200 [(lit ''11178'', fooPage)])\<rparr>"

definition unavailable :: wikipedia where
  "unavailable =
     \<lparr>search = (\<lambda>q. Response 503 []),
      opensearch = (\<lambda>q. Response 503 []),
      content = (\<lambda>t. Response 503 [])\<rparr>"

definition contentUnavailable :: wikipedia where
  "contentUnavailable =
     \<lparr>search = (\<lambda>q. Response 200 [fooResult]),
      opensearch = (\<lambda>q. Response 200 []),
      content = (\<lambda>t. Response 503 [])\<rparr>"

definition bazResult :: searchResult where
  "bazResult = \<lparr>title = lit ''Baz'', snippet = lit ''baz follows bar''\<rparr>"

definition trioService :: wikipedia where
  "trioService =
     \<lparr>search = (\<lambda>q. Response 200 [fooResult, barResult, bazResult]),
      opensearch = (\<lambda>q. Response 200 []),
      content = (\<lambda>t. Response 200 [(lit ''11178'', fooPage)])\<rparr>"

text \<open>The text of the answer of \<open>trioService\<close> to the question \<open>foo\<close> when every random number
  is 0.\<close>

definition trioText :: jsstring where
  "trioText =
     lit ''Great question! Let me tell you about **Foo**:'' @ nl @ nl
     @ lit ''Foo is a placeholder name used in computer programming examples. ''
     @ lit ''The word has been common in technical writing since the sixties''
     @ nl @ nl @ lit ''Hope this helps clarify things!'' @ nl @ nl
     @ lit ''**'' @ booksMark @ lit '' Sources & Further Reading:**'' @ nl
     @ bulletMark @ lit '' [Foo on Wikipedia](https://en.wikipedia.org/wiki/Foo)'' @ nl
     @ nl @ lit ''**'' @ linkMark @ lit '' You might also be interested in:** Bar, Baz''"

text \<open>The number of the places of a text at which a string stands.\<close>

fun countOccurrences :: "jsstring \<Rightarrow> jsstring \<Rightarrow> nat" where
  "countOccurrences pat [] = (if pat = [] then 1 else 0)"
| "countOccurrences pat (c # cs) =
     (if prefix pat (c # cs) then 1 else 0) + countOccurrences pat cs"

definition zeros :: randomSource where
  "zeros = (\<lambda>n. 0)"


section \<open>Validation and the empty result\<close>

text \<open>
  C1. A question of length 0 or of more than 1000 characters is rejected with the
  ZodError of the schema: the answer is the failure answer (\<open>success = False\<close>, the error in
  \<open>error\<close>), and no request has been sent to the external service.
\<close>

theorem C1_validation_before_network:
  assumes "length question = 0 \<or> 1000 < length question"
  shows "processQuestion w rnd startTime endTime question = (failure ZodError, [])
         \<and> success (fst (processQuestion w rnd startTime endTime question)) = False
         \<and> error (fst (processQuestion w rnd startTime endTime question)) = Some ZodError
         \<and> snd (processQuestion w rnd startTime endTime question) = []"
  using assms by (auto simp: processQuestion_def failure_def)

theorem C1_validation_before_network_witness:
  "(length ([] :: jsstring) = 0 \<or> 1000 < length ([] :: jsstring))
   \<and> processQuestion fooService zeros 0 0 [] = (failure ZodError, [])
   \<and> (length (replicate 1001 (0x61 :: jschar)) = 0
        \<or> 1000 < length (replicate 1001 (0x61 :: jschar)))
   \<and> snd (processQuestion fooService zeros 0 0 (replicate 1001 0x61)) = []"
  using C1_validation_before_network [of "[]" fooService zeros 0 0]
    C1_validation_before_network [of "replicate 1001 0x61" fooService zeros 0 0]
  by simp

lemma noResult_quotes:
  "\<exists>pre post.
     fst (generateNoResultResponse question rnd) = pre @ dquote @ question @ dquote @ post"
  unfolding generateNoResultResponse_def Let_def fst_conv
  by (metis append.assoc)

text \<open>
  C2. The original search is made when the question passes the schema and can be
  encoded. When it answers with a success status and no candidate, and the fallback search
  (made when the Resolver gives another query) answers with no candidate either, the
  answer has \<open>success = True\<close>, no error, \<open>sources = []\<close>, and its text contains the question
  between double quotes.
\<close>

theorem C2_no_results_is_success:
  assumes "1 \<le> length question" and "length question \<le> 1000"
    and "encodeURIComponent question \<noteq> None"
    and "search w question = Response status []" and "ok status"
    and "fst (attemptSpellCorrection w question) \<noteq> question \<longrightarrow>
           encodeURIComponent (fst (attemptSpellCorrection w question)) \<noteq> None
           \<and> (\<exists>status'. search w (fst (attemptSpellCorrection w question))
                          = Response status' [])"
  shows "success (fst (processQuestion w rnd startTime endTime question))
         \<and> sources (fst (processQuestion w rnd startTime endTime question)) = Some []
         \<and> error (fst (processQuestion w rnd startTime endTime question)) = None
         \<and> (\<exists>pre post. response (fst (processQuestion w rnd startTime endTime question))
                = Some (pre @ dquote @ question @ dquote @ post))"
proof -
  obtain c calls where c: "attemptSpellCorrection w question = (c, calls)"
    by (cases "attemptSpellCorrection w question")
  have "\<exists>calls'. retrySearch w question [] = (Inr [], calls')"
    using assms(6) c by (auto simp: retrySearch_def split: option.splits fetched.splits)
  then obtain calls' where r: "retrySearch w question [] = (Inr [], calls')" ..
  have pq: "processQuestion w rnd startTime endTime question =
        (fst (answerFrom w rnd startTime endTime question []), SearchReq question # calls' @ [])"
    using assms(1-5) r by (auto simp: processQuestion_def answerFrom_def split: option.splits)
  show ?thesis
    unfolding pq using noResult_quotes [of question rnd]
    by (auto simp: answerFrom_def)
qed

theorem C2_no_results_is_success_witness:
  "fst (attemptSpellCorrection silent (lit ''Asdkj'')) \<noteq> lit ''Asdkj''
   \<and> search silent (lit ''Asdkj'') = Response 200 []
   \<and> search silent (fst (attemptSpellCorrection silent (lit ''Asdkj''))) = Response 200 []
   \<and> success (fst (processQuestion silent zeros 0 5 (lit ''Asdkj'')))
   \<and> sources (fst (processQuestion silent zeros 0 5 (lit ''Asdkj''))) = Some []
   \<and> (\<exists>pre post. response (fst (processQuestion silent zeros 0 5 (lit ''Asdkj'')))
          = Some (pre @ dquote @ lit ''Asdkj'' @ dquote @ post))"
proof -
  have h1: "1 \<le> length (lit ''Asdkj'')" and h2: "length (lit ''Asdkj'') \<le> 1000"
    by (simp_all add: lit_def)
  have h3: "encodeURIComponent (lit ''Asdkj'') \<noteq> None"
    by code_simp
  have h4: "search silent (lit ''Asdkj'') = Response 200 []"
    by (simp add: silent_def)
  have h5: "ok 200"
    by (simp add: ok_def)
  have c: "fst (attemptSpellCorrection silent (lit ''Asdkj'')) = lit ''asdkj''"
    by code_simp
  have ne: "lit ''asdkj'' \<noteq> lit ''Asdkj''"
    by code_simp
  have h6: "fst (attemptSpellCorrection silent (lit ''Asdkj'')) \<noteq> lit ''Asdkj'' \<longrightarrow>
           encodeURIComponent (fst (attemptSpellCorrection silent (lit ''Asdkj''))) \<noteq> None
           \<and> (\<exists>status'. search silent (fst (attemptSpellCorrection silent (lit ''Asdkj'')))
                          = Response status' [])"
    unfolding c by (rule impI, rule conjI, code_simp, simp add: silent_def)
  show ?thesis
    using C2_no_results_is_success [OF h1 h2 h3 h4 h5 h6, of zeros 0 5] c ne h4
    by (simp add: silent_def)
qed

section \<open>The shape of a run\<close>

lemma retrySearch_nonempty:
  "found \<noteq> [] \<Longrightarrow> retrySearch w question found = (Inr found, [])"
  by (simp add: retrySearch_def)

lemma retrySearch_calls:
  assumes "retrySearch w question [] = (r, calls)" and "SearchReq q' \<in> set calls"
  shows "q' \<noteq> question \<and> q' = fst (attemptSpellCorrection w question)
         \<and> (case search w q' of
               Throws m \<Rightarrow> r = Inl (FetchError m)
             | Response st rs \<Rightarrow> r = Inr rs)"
  using assms
  by (auto simp: retrySearch_def attemptSpellCorrection_def
           split: prod.splits option.splits fetched.splits if_splits list.splits)

lemma retrySearch_no_content: "ContentReq t \<notin> set (snd (retrySearch w question found))"
  by (auto simp: retrySearch_def attemptSpellCorrection_def
           split: prod.splits option.splits fetched.splits if_splits list.splits)

lemma retrySearch_throws:
  assumes "SearchReq q' \<in> set (snd (retrySearch w question found))" and "search w q' = Throws m"
  shows "fst (retrySearch w question found) = Inl (FetchError m)"
  using assms
  by (auto simp: retrySearch_def attemptSpellCorrection_def
           split: prod.splits option.splits fetched.splits if_splits list.splits)

lemma answerFrom_calls:
  "SearchReq q' \<notin> set (snd (answerFrom w rnd t0 t1 question rs))"
  by (auto simp: answerFrom_def split: list.splits option.splits fetched.splits sum.splits)

lemma answerFrom_sources:
  "rs \<noteq> [] \<Longrightarrow>
   (if success (fst (answerFrom w rnd t0 t1 question rs))
    then sources (fst (answerFrom w rnd t0 t1 question rs)) = Some (map title rs)
    else sources (fst (answerFrom w rnd t0 t1 question rs)) = None
         \<and> error (fst (answerFrom w rnd t0 t1 question rs)) \<noteq> None)"
  by (auto simp: answerFrom_def failure_def
           split: list.splits option.splits fetched.splits sum.splits)

lemma answerFrom_content_req:
  assumes "ContentReq t \<in> set (snd (answerFrom w rnd t0 t1 question rs))"
  shows "\<exists>r rest. rs = r # rest \<and> t = title r \<and> encodeURIComponent (title r) \<noteq> None"
  using assms
  by (auto simp: answerFrom_def split: list.splits option.splits fetched.splits sum.splits if_splits)

lemma answerFrom_throws:
  assumes "encodeURIComponent (title r) \<noteq> None" and "content w (title r) = Throws m"
  shows "answerFrom w rnd t0 t1 question (r # rest)
           = (failure (FetchError m), [ContentReq (title r)])"
  using assms by (auto simp: answerFrom_def)

lemma answerFrom_not_ok:
  assumes "encodeURIComponent (title r) \<noteq> None"
    and "content w (title r) = Response st pages" and "\<not> ok st"
  shows "answerFrom w rnd t0 t1 question (r # rest)
           = (failure (ContentFailed st), [ContentReq (title r)])"
  using assms by (auto simp: answerFrom_def)

lemma answerFrom_ok:
  assumes "encodeURIComponent (title r) \<noteq> None"
    and "content w (title r) = Response st pages" and "ok st"
    and "generateWikipediaResponse question
           (case pages of [] \<Rightarrow> None | (pageId, article) # _ \<Rightarrow> Some article)
           (r # rest) rnd = Inr text"
  shows "answerFrom w rnd t0 t1 question (r # rest)
           = (\<lparr>httpStatus = 200, success = True, response = Some text,
               sources = Some (map title (r # rest)),
               processingTime = Some (t1 - t0), error = None\<rparr>,
              [ContentReq (title r)])"
  using assms by (auto simp: answerFrom_def)

lemma generateWikipediaResponse_no_article:
  assumes "case pages of [] \<Rightarrow> True | (pageId, article) # _ \<Rightarrow> \<not> truthy (pageExtract article)"
  shows "generateWikipediaResponse question
           (case pages of [] \<Rightarrow> None | (pageId, article) # _ \<Rightarrow> Some article) rs rnd
         = Inr (fst (generateNoResultResponse question rnd))"
  using assms by (auto simp: generateWikipediaResponse_def split: list.splits)

lemma generateWikipediaResponse_article:
  assumes "truthy (pageExtract a)" and "articleUrl a = Inr url"
  shows "generateWikipediaResponse question (Some a) rs rnd
         = Inr (fst (generateConversationalResponse question (pageTitle a)
                       (extractRelevantContent (articleParagraphs (the (pageExtract a)))
                          question) rnd)
                @ nl @ nl @ sourcesHeader @ sourceBullet (pageTitle a) url @ relatedLine rs)"
  using assms by (simp add: generateWikipediaResponse_def Let_def)


lemma answerFrom_content:
  assumes "ContentReq t \<in> set (snd (answerFrom w rnd t0 t1 question rs))"
  shows "(content w t = Throws m \<longrightarrow>
            fst (answerFrom w rnd t0 t1 question rs) = failure (FetchError m))
       \<and> (content w t = Response st pages \<and> \<not> ok st \<longrightarrow>
            fst (answerFrom w rnd t0 t1 question rs) = failure (ContentFailed st))
       \<and> (content w t = Response st pages \<and> ok st
             \<and> (case pages of [] \<Rightarrow> True
                 | (pageId, article) # _ \<Rightarrow> \<not> truthy (pageExtract article)) \<longrightarrow>
            success (fst (answerFrom w rnd t0 t1 question rs))
            \<and> response (fst (answerFrom w rnd t0 t1 question rs))
                = Some (fst (generateNoResultResponse question rnd))
            \<and> sources (fst (answerFrom w rnd t0 t1 question rs)) = Some (map title rs))"
proof -
  from answerFrom_content_req [OF assms] obtain r rest
    where rs: "rs = r # rest" and t: "t = title r"
      and enc: "encodeURIComponent (title r) \<noteq> None"
    by blast
  show ?thesis
    unfolding rs t
    using answerFrom_throws [OF enc, of w m rnd t0 t1 question rest]
      answerFrom_not_ok [OF enc, of w st pages rnd t0 t1 question rest]
      answerFrom_ok [OF enc, of w st pages question rest rnd
        "fst (generateNoResultResponse question rnd)" t0 t1]
      generateWikipediaResponse_no_article [of pages question "r # rest" rnd]
    by auto
qed



lemma run_search_throws:
  assumes "1 \<le> length question" and "length question \<le> 1000"
    and "encodeURIComponent question \<noteq> None" and "search w question = Throws m"
  shows "processQuestion w rnd t0 t1 question = (failure (FetchError m), [SearchReq question])"
  using assms by (auto simp: processQuestion_def)

lemma run_search_not_ok:
  assumes "1 \<le> length question" and "length question \<le> 1000"
    and "encodeURIComponent question \<noteq> None"
    and "search w question = Response st found" and "\<not> ok st"
  shows "processQuestion w rnd t0 t1 question = (failure (SearchFailed st), [SearchReq question])"
  using assms by (auto simp: processQuestion_def)

lemma run_retry_fails:
  assumes "1 \<le> length question" and "length question \<le> 1000"
    and "encodeURIComponent question \<noteq> None"
    and "search w question = Response st found" and "ok st"
    and "retrySearch w question found = (Inl e, calls)"
  shows "processQuestion w rnd t0 t1 question = (failure e, SearchReq question # calls)"
  using assms by (auto simp: processQuestion_def)

lemma run_results:
  assumes "1 \<le> length question" and "length question \<le> 1000"
    and "encodeURIComponent question \<noteq> None"
    and "search w question = Response st found" and "ok st"
    and "retrySearch w question found = (Inr rs, calls)"
  shows "processQuestion w rnd t0 t1 question =
           (fst (answerFrom w rnd t0 t1 question rs),
            SearchReq question # calls @ snd (answerFrom w rnd t0 t1 question rs))"
  using assms by (auto simp: processQuestion_def split: prod.splits)

lemma run_shape:
  "snd (processQuestion w rnd t0 t1 question) = []
   \<or> (\<exists>m0. search w question = Throws m0
         \<and> processQuestion w rnd t0 t1 question
             = (failure (FetchError m0), [SearchReq question]))
   \<or> (\<exists>st0 found0. search w question = Response st0 found0 \<and> \<not> ok st0
         \<and> processQuestion w rnd t0 t1 question
             = (failure (SearchFailed st0), [SearchReq question]))
   \<or> (\<exists>st0 found0 e0 calls. search w question = Response st0 found0 \<and> ok st0
         \<and> retrySearch w question found0 = (Inl e0, calls)
         \<and> processQuestion w rnd t0 t1 question = (failure e0, SearchReq question # calls))
   \<or> (\<exists>st0 found0 rs calls. search w question = Response st0 found0 \<and> ok st0
         \<and> retrySearch w question found0 = (Inr rs, calls)
         \<and> processQuestion w rnd t0 t1 question
             = (fst (answerFrom w rnd t0 t1 question rs),
                SearchReq question # calls @ snd (answerFrom w rnd t0 t1 question rs)))"
proof (cases "1 \<le> length question \<and> length question \<le> 1000
              \<and> encodeURIComponent question \<noteq> None")
  case False
  then have "snd (processQuestion w rnd t0 t1 question) = []"
    by (cases question) (auto simp: processQuestion_def)
  then show ?thesis by simp
next
  case valid: True
  show ?thesis
  proof (cases "search w question")
    case (Throws m0)
    then show ?thesis
      using valid run_search_throws [of question w m0 rnd t0 t1] by simp
  next
    case (Response st0 found0)
    show ?thesis
    proof (cases "ok st0")
      case False
      then show ?thesis
        using valid Response run_search_not_ok [of question w st0 found0 rnd t0 t1] by simp
    next
      case True
      obtain r calls where r: "retrySearch w question found0 = (r, calls)"
        by (cases "retrySearch w question found0")
      show ?thesis
      proof (cases r)
        case (Inl e0)
        then show ?thesis
          using valid Response True r
            run_retry_fails [of question w st0 found0 e0 calls rnd t0 t1]
          by simp
      next
        case (Inr rs)
        then show ?thesis
          using valid Response True r
            run_results [of question w st0 found0 rs calls rnd t0 t1]
          by simp
      qed
    qed
  qed
qed

lemma run_success:
  assumes "1 \<le> length question" and "length question \<le> 1000"
    and "encodeURIComponent question \<noteq> None"
    and "search w question = Response st found" and "ok st"
    and "retrySearch w question found = (Inr (r # rest), calls)"
    and "encodeURIComponent (title r) \<noteq> None"
    and "content w (title r) = Response st' ((pageId, a) # others)" and "ok st'"
    and "truthy (pageExtract a)" and "articleUrl a = Inr url"
  shows "processQuestion w rnd t0 t1 question
         = (\<lparr>httpStatus = 200, success = True,
             response =
               Some (fst (generateConversationalResponse question (pageTitle a)
                            (extractRelevantContent (articleParagraphs (the (pageExtract a)))
                               question) rnd)
                     @ nl @ nl @ sourcesHeader @ sourceBullet (pageTitle a) url
                     @ relatedLine (r # rest)),
             sources = Some (map title (r # rest)),
             processingTime = Some (t1 - t0), error = None\<rparr>,
            SearchReq question # calls @ [ContentReq (title r)])"
proof -
  have g: "generateWikipediaResponse question
             (case (pageId, a) # others of [] \<Rightarrow> None | (pageId, article) # _ \<Rightarrow> Some article)
             (r # rest) rnd
           = Inr (fst (generateConversationalResponse question (pageTitle a)
                         (extractRelevantContent (articleParagraphs (the (pageExtract a)))
                            question) rnd)
                  @ nl @ nl @ sourcesHeader @ sourceBullet (pageTitle a) url
                  @ relatedLine (r # rest))"
    using generateWikipediaResponse_article [OF assms(10,11)] by simp
  show ?thesis
    unfolding run_results [OF assms(1-6)] answerFrom_ok [OF assms(7,8,9) g]
    by simp
qed


section \<open>The titles returned as sources\<close>

text \<open>
  C3, as amended. In a run in which a search request, the original or the fallback one, is
  answered with a list of candidates that is not empty, either the run succeeds and
  \<open>sources\<close> is the list of the titles of exactly these candidates in their order, or the
  run ends in a failure, which has an error and no \<open>sources\<close>.
\<close>

theorem C3_sources_are_candidate_titles:
  assumes "SearchReq q' \<in> set (snd (processQuestion w rnd startTime endTime question))"
    and "search w q' = Response status found" and "found \<noteq> []"
  shows "if success (fst (processQuestion w rnd startTime endTime question))
         then sources (fst (processQuestion w rnd startTime endTime question)) = Some (map title found)
         else sources (fst (processQuestion w rnd startTime endTime question)) = None
              \<and> error (fst (processQuestion w rnd startTime endTime question)) \<noteq> None"
proof -
  let ?run = "processQuestion w rnd startTime endTime question"
  from assms(1) have valid: "\<not> (length question < 1 \<or> 1000 < length question)"
    and enc: "encodeURIComponent question \<noteq> None"
    by (auto simp: processQuestion_def split: if_splits option.splits)
  show ?thesis
  proof (cases "search w question")
    case (Throws m)
    then have "?run = (failure (FetchError m), [SearchReq question])"
      using valid enc by (auto simp: processQuestion_def)
    with assms Throws show ?thesis by (auto simp: failure_def)
  next
    case (Response st0 found0)
    show ?thesis
    proof (cases "ok st0")
      case False
      then have "?run = (failure (SearchFailed st0), [SearchReq question])"
        using valid enc Response by (auto simp: processQuestion_def)
      then show ?thesis by (auto simp: failure_def)
    next
      case True
      obtain r calls where r: "retrySearch w question found0 = (r, calls)"
        by (cases "retrySearch w question found0")
      show ?thesis
      proof (cases "found0 = []")
        case False
        then have r': "r = Inr found0" "calls = []"
          using r retrySearch_nonempty [of found0 w question] by auto
        have run: "?run = (fst (answerFrom w rnd startTime endTime question found0),
                     SearchReq question # snd (answerFrom w rnd startTime endTime question found0))"
          using valid enc Response True r r'
          by (auto simp: processQuestion_def split: prod.splits)
        have "q' = question"
          using assms(1) answerFrom_calls [of q' w rnd startTime endTime question found0]
          unfolding run by auto
        then have "found = found0" using assms(2) Response by simp
        then show ?thesis
          unfolding run using answerFrom_sources [OF False, of w rnd startTime endTime question]
          by simp
      next
        case empty: True
        show ?thesis
        proof (cases r)
          case (Inl e)
          then have run: "?run = (failure e, SearchReq question # calls)"
            using valid enc Response True r by (auto simp: processQuestion_def)
          then show ?thesis by (auto simp: failure_def)
        next
          case (Inr rs)
          then have run: "?run = (fst (answerFrom w rnd startTime endTime question rs),
                     SearchReq question # calls @ snd (answerFrom w rnd startTime endTime question rs))"
            using valid enc Response True r
            by (auto simp: processQuestion_def split: prod.splits)
          have "q' \<noteq> question" using assms(2,3) Response empty by auto
          then have "SearchReq q' \<in> set calls"
            using assms(1) answerFrom_calls [of q' w rnd startTime endTime question rs]
            unfolding run by auto
          then have "rs = found"
            using retrySearch_calls [of w question r calls q'] r empty Inr assms(2) by auto
          then show ?thesis
            unfolding run using answerFrom_sources [OF assms(3), of w rnd startTime endTime question]
            by simp
        qed
      qed
    qed
  qed
qed

theorem C3_sources_are_candidate_titles_witness:
  "SearchReq (lit ''foo'') \<in> set (snd (processQuestion fooService zeros 0 0 (lit ''foo'')))
   \<and> search fooService (lit ''foo'') = Response 200 [fooResult, barResult]
   \<and> success (fst (processQuestion fooService zeros 0 0 (lit ''foo'')))
   \<and> sources (fst (processQuestion fooService zeros 0 0 (lit ''foo'')))
       = Some [lit ''Foo'', lit ''Bar'']
   \<and> SearchReq (lit ''Foo'') \<in> set (snd (processQuestion fooService zeros 0 0 (lit ''fooo'')))
   \<and> search fooService (lit ''fooo'') = Response 200 []
   \<and> search fooService (lit ''Foo'') = Response 200 [fooResult, barResult]
   \<and> success (fst (processQuestion fooService zeros 0 0 (lit ''fooo'')))
   \<and> sources (fst (processQuestion fooService zeros 0 0 (lit ''fooo'')))
       = Some [lit ''Foo'', lit ''Bar'']"
proof -
  have len: "1 \<le> length (lit ''foo'')" "length (lit ''foo'') \<le> 1000"
      "1 \<le> length (lit ''fooo'')" "length (lit ''fooo'') \<le> 1000"
    by (simp_all add: lit_def)
  have enc: "encodeURIComponent (lit ''foo'') \<noteq> None"
      "encodeURIComponent (lit ''fooo'') \<noteq> None"
      "encodeURIComponent (title fooResult) \<noteq> None"
    by code_simp+
  have s1: "search fooService (lit ''foo'') = Response 200 [fooResult, barResult]"
    by code_simp
  have s2: "search fooService (lit ''Foo'') = Response 200 [fooResult, barResult]"
    by code_simp
  have s3: "search fooService (lit ''fooo'') = Response 200 []"
    by code_simp
  have r1: "retrySearch fooService (lit ''foo'') [fooResult, barResult]
              = (Inr [fooResult, barResult], [])"
    by (simp add: retrySearch_def)
  have r2: "retrySearch fooService (lit ''fooo'') []
              = (Inr [fooResult, barResult],
                 [OpensearchReq (lit ''fooo''), SearchReq (lit ''Foo'')])"
    by code_simp
  have c: "content fooService (title fooResult) = Response 200 [(lit ''11178'', fooPage)]"
    by (simp add: fooService_def)
  have okay: "ok 200"
    by (simp add: ok_def)
  have ex: "truthy (pageExtract fooPage)"
    by code_simp
  have url: "articleUrl fooPage = Inr (lit ''https://en.wikipedia.org/wiki/Foo'')"
    by code_simp
  note run1 = run_success [OF len(1,2) enc(1) s1 okay r1 enc(3) c okay ex url, of zeros 0 0]
  note run2 = run_success [OF len(3,4) enc(2) s3 okay r2 enc(3) c okay ex url, of zeros 0 0]
  have t1: "SearchReq (lit ''foo'')
              \<in> set (snd (processQuestion fooService zeros 0 0 (lit ''foo'')))"
    unfolding run1 by simp
  have t2: "SearchReq (lit ''Foo'')
              \<in> set (snd (processQuestion fooService zeros 0 0 (lit ''fooo'')))"
    unfolding run2 by simp
  have ne: "[fooResult, barResult] \<noteq> []"
    by simp
  have titles: "map title [fooResult, barResult] = [lit ''Foo'', lit ''Bar'']"
    by (simp add: fooResult_def barResult_def)
  have ok1: "success (fst (processQuestion fooService zeros 0 0 (lit ''foo'')))"
    unfolding run1 by simp
  have ok2: "success (fst (processQuestion fooService zeros 0 0 (lit ''fooo'')))"
    unfolding run2 by simp
  show ?thesis
    using C3_sources_are_candidate_titles [OF t1 s1 ne]
      C3_sources_are_candidate_titles [OF t2 s2 ne] t1 s1 ok1 t2 s2 s3 ok2 titles
    by simp
qed

text \<open>
  C3 as it is stated fails where the content request throws: the search has returned one
  candidate, and the answer is the failure, without \<open>sources\<close>.
\<close>

theorem C3_counterexample:
  "SearchReq (lit ''foo'') \<in> set (snd (processQuestion contentDown zeros 0 0 (lit ''foo'')))
   \<and> search contentDown (lit ''foo'') = Response 200 [fooResult]
   \<and> [fooResult] \<noteq> []
   \<and> sources (fst (processQuestion contentDown zeros 0 0 (lit ''foo'')))
       \<noteq> Some (map title [fooResult])"
proof -
  have "processQuestion contentDown zeros 0 0 (lit ''foo'')
          = (failure (FetchError (lit ''fetch failed'')),
             [SearchReq (lit ''foo''), ContentReq (lit ''Foo'')])"
    by code_simp
  then show ?thesis
    by (simp add: failure_def contentDown_def)
qed

section \<open>Failures of the external service\<close>

text \<open>
  C4, as amended. When a search request throws, when the original search answers with a
  status that is not a success, and when the content request throws or answers with such a
  status, the answer is the failure with that error: \<open>success = False\<close>, no text. When the
  content request answers with a success status and its first page has no extract, or
  there is no page, as for the page id \<open>-1\<close> of a title that does not exist, the run
  succeeds, and its text is the no-result text.
\<close>

theorem C4_failures_abort:
  "(SearchReq q' \<in> set (snd (processQuestion w rnd startTime endTime question))
      \<and> search w q' = Throws m \<longrightarrow>
      fst (processQuestion w rnd startTime endTime question) = failure (FetchError m))
   \<and> (SearchReq question \<in> set (snd (processQuestion w rnd startTime endTime question))
      \<and> search w question = Response status found \<and> \<not> ok status \<longrightarrow>
      fst (processQuestion w rnd startTime endTime question) = failure (SearchFailed status))
   \<and> (ContentReq t \<in> set (snd (processQuestion w rnd startTime endTime question))
      \<and> content w t = Throws m' \<longrightarrow>
      fst (processQuestion w rnd startTime endTime question) = failure (FetchError m'))
   \<and> (ContentReq t \<in> set (snd (processQuestion w rnd startTime endTime question))
      \<and> content w t = Response status' pages \<and> \<not> ok status' \<longrightarrow>
      fst (processQuestion w rnd startTime endTime question) = failure (ContentFailed status'))
   \<and> (ContentReq t \<in> set (snd (processQuestion w rnd startTime endTime question))
      \<and> content w t = Response status' pages \<and> ok status'
      \<and> (case pages of [] \<Rightarrow> True | (pageId, article) # _ \<Rightarrow> \<not> truthy (pageExtract article)) \<longrightarrow>
      success (fst (processQuestion w rnd startTime endTime question))
      \<and> response (fst (processQuestion w rnd startTime endTime question))
          = Some (fst (generateNoResultResponse question rnd)))
   \<and> \<not> success (failure e) \<and> error (failure e) = Some e \<and> response (failure e) = None"
proof -
  let ?run = "processQuestion w rnd startTime endTime question"
  consider (none) "snd ?run = []"
    | (thrown) m0 where "search w question = Throws m0"
        "?run = (failure (FetchError m0), [SearchReq question])"
    | (notok) st0 found0 where "search w question = Response st0 found0" "\<not> ok st0"
        "?run = (failure (SearchFailed st0), [SearchReq question])"
    | (retry) st0 found0 e0 calls where "search w question = Response st0 found0" "ok st0"
        "retrySearch w question found0 = (Inl e0, calls)"
        "?run = (failure e0, SearchReq question # calls)"
    | (results) st0 found0 rs calls where "search w question = Response st0 found0" "ok st0"
        "retrySearch w question found0 = (Inr rs, calls)"
        "?run = (fst (answerFrom w rnd startTime endTime question rs),
                 SearchReq question # calls @ snd (answerFrom w rnd startTime endTime question rs))"
    using run_shape [of w rnd startTime endTime question] by blast
  then show ?thesis
  proof cases
    case none
    then show ?thesis by (simp add: failure_def)
  next
    case thrown
    then show ?thesis by (auto simp: failure_def)
  next
    case notok
    then show ?thesis by (auto simp: failure_def)
  next
    case retry
    then show ?thesis
      using retrySearch_throws [of q' w question found0 m]
        retrySearch_no_content [of t w question found0]
      by (auto simp: failure_def)
  next
    case results
    have a: "SearchReq q' \<in> set calls \<Longrightarrow> search w q' = Throws m \<Longrightarrow> False"
      using retrySearch_throws [of q' w question found0 m] results(3) by simp
    have b: "ContentReq t \<notin> set calls"
      using retrySearch_no_content [of t w question found0] results(3) by simp
    show ?thesis
      unfolding results(4) fst_conv snd_conv
      using a b results(1,2) answerFrom_calls [of q' w rnd startTime endTime question rs]
        answerFrom_content [of t w rnd startTime endTime question rs m' status' pages]
      by (auto simp: failure_def)
  qed
qed

theorem C4_failures_abort_witness:
  "SearchReq (lit ''foo'') \<in> set (snd (processQuestion offline zeros 0 0 (lit ''foo'')))
   \<and> search offline (lit ''foo'') = Throws (lit ''fetch failed'')
   \<and> fst (processQuestion offline zeros 0 0 (lit ''foo''))
       = failure (FetchError (lit ''fetch failed''))
   \<and> SearchReq (lit ''foo'') \<in> set (snd (processQuestion unavailable zeros 0 0 (lit ''foo'')))
   \<and> search unavailable (lit ''foo'') = Response 503 [] \<and> \<not> ok 503
   \<and> fst (processQuestion unavailable zeros 0 0 (lit ''foo'')) = failure (SearchFailed 503)
   \<and> ContentReq (lit ''Foo'') \<in> set (snd (processQuestion contentDown zeros 0 0 (lit ''foo'')))
   \<and> content contentDown (lit ''Foo'') = Throws (lit ''fetch failed'')
   \<and> fst (processQuestion contentDown zeros 0 0 (lit ''foo''))
       = failure (FetchError (lit ''fetch failed''))
   \<and> ContentReq (lit ''Foo'')
       \<in> set (snd (processQuestion contentUnavailable zeros 0 0 (lit ''foo'')))
   \<and> content contentUnavailable (lit ''Foo'') = Response 503 []
   \<and> fst (processQuestion contentUnavailable zeros 0 0 (lit ''foo''))
       = failure (ContentFailed 503)
   \<and> ContentReq (lit ''Foo'') \<in> set (snd (processQuestion missingPage zeros 0 0 (lit ''foo'')))
   \<and> content missingPage (lit ''Foo'') = Response 200 [(lit ''-1'', missingFoo)] \<and> ok 200
   \<and> \<not> truthy (pageExtract missingFoo)
   \<and> success (fst (processQuestion missingPage zeros 0 0 (lit ''foo'')))
   \<and> response (fst (processQuestion missingPage zeros 0 0 (lit ''foo'')))
       = Some (fst (generateNoResultResponse (lit ''foo'') zeros))"
proof -
  have a: "SearchReq (lit ''foo'')
             \<in> set (snd (processQuestion offline zeros 0 0 (lit ''foo'')))"
    by code_simp
  have a': "search offline (lit ''foo'') = Throws (lit ''fetch failed'')"
    by (simp add: offline_def)
  have b: "SearchReq (lit ''foo'')
             \<in> set (snd (processQuestion unavailable zeros 0 0 (lit ''foo'')))"
    by code_simp
  have b': "search unavailable (lit ''foo'') = Response 503 []" "\<not> ok 503"
    by (simp_all add: unavailable_def ok_def)
  have c: "ContentReq (lit ''Foo'')
             \<in> set (snd (processQuestion contentDown zeros 0 0 (lit ''foo'')))"
    by code_simp
  have c': "content contentDown (lit ''Foo'') = Throws (lit ''fetch failed'')"
    by (simp add: contentDown_def)
  have d: "ContentReq (lit ''Foo'')
             \<in> set (snd (processQuestion contentUnavailable zeros 0 0 (lit ''foo'')))"
    by code_simp
  have d': "content contentUnavailable (lit ''Foo'') = Response 503 []"
    by (simp add: contentUnavailable_def)
  have e: "ContentReq (lit ''Foo'')
             \<in> set (snd (processQuestion missingPage zeros 0 0 (lit ''foo'')))"
    by code_simp
  have e': "content missingPage (lit ''Foo'') = Response 200 [(lit ''-1'', missingFoo)]"
      "ok 200" "\<not> truthy (pageExtract missingFoo)"
    by (simp_all add: missingPage_def ok_def missingFoo_def truthy_def)
  show ?thesis
    using
      C4_failures_abort [where w = offline and question = "lit ''foo''" and q' = "lit ''foo''"
        and m = "lit ''fetch failed''" and rnd = zeros and startTime = 0 and endTime = 0]
      C4_failures_abort [where w = unavailable and question = "lit ''foo''" and status = 503
        and found = "[]" and rnd = zeros and startTime = 0 and endTime = 0]
      C4_failures_abort [where w = contentDown and question = "lit ''foo''" and t = "lit ''Foo''"
        and m' = "lit ''fetch failed''" and rnd = zeros and startTime = 0 and endTime = 0]
      C4_failures_abort [where w = contentUnavailable and question = "lit ''foo''"
        and t = "lit ''Foo''" and status' = 503 and pages = "[]" and rnd = zeros
        and startTime = 0 and endTime = 0]
      C4_failures_abort [where w = missingPage and question = "lit ''foo''" and t = "lit ''Foo''"
        and status' = 200 and pages = "[(lit ''-1'', missingFoo)]" and rnd = zeros
        and startTime = 0 and endTime = 0]
      a a' b b' c c' d d' e e'
    by simp
qed

text \<open>
  C4 as it is stated fails on the page id \<open>-1\<close>: the content request is answered with the
  page of a missing title, and the handler answers \<open>success = True\<close> without error.
\<close>

theorem C4_counterexample:
  "ContentReq (lit ''Foo'') \<in> set (snd (processQuestion missingPage zeros 0 0 (lit ''foo'')))
   \<and> content missingPage (lit ''Foo'') = Response 200 [(lit ''-1'', missingFoo)]
   \<and> success (fst (processQuestion missingPage zeros 0 0 (lit ''foo''))) \<noteq> False
   \<and> error (fst (processQuestion missingPage zeros 0 0 (lit ''foo''))) = None"
proof -
  have "snd (processQuestion missingPage zeros 0 0 (lit ''foo''))
          = [SearchReq (lit ''foo''), ContentReq (lit ''Foo'')]"
    by code_simp
  moreover have "success (fst (processQuestion missingPage zeros 0 0 (lit ''foo'')))"
    by code_simp
  moreover have "error (fst (processQuestion missingPage zeros 0 0 (lit ''foo''))) = None"
    by code_simp
  ultimately show ?thesis
    by (simp add: missingPage_def)
qed

section \<open>The sources section of the text\<close>

text \<open>
  C5, as amended. When the article has an extract, the text that
  \<open>generateWikipediaResponse\<close> returns is the conversational text, a blank line, the header
  \<open>Sources & Further Reading\<close> between its marks, and one bullet: a markdown link whose
  text is the title of the fetched article followed by \<open>on Wikipedia\<close> and whose target is
  the address of the article (\<open>fullurl\<close>, or the address made from the encoded title). The
  titles of the candidates of rank 2 and 3 follow without bullet and without link, in the
  line of the related topics, when there is more than one candidate.
\<close>

theorem C5_sources_section:
  assumes "truthy (pageExtract a)"
    and "generateWikipediaResponse question (Some a) searchResults rnd = Inr text"
  shows "\<exists>url.
           text = fst (generateConversationalResponse question (pageTitle a)
                         (extractRelevantContent (articleParagraphs (the (pageExtract a)))
                            question) rnd)
                  @ [0x0A, 0x0A]
                  @ lit ''**'' @ [0xF0, 0x178, 0x201C, 0x161]
                  @ lit '' Sources & Further Reading:**'' @ [0x0A]
                  @ [0xE2, 0x20AC, 0xA2] @ lit '' ['' @ pageTitle a @ lit '' on Wikipedia](''
                  @ url @ lit '')'' @ [0x0A]
                  @ (if 1 < length searchResults
                     then [0x0A] @ lit ''**'' @ [0xF0, 0x178, 0x201D, 0x2014]
                          @ lit '' You might also be interested in:** ''
                          @ join (lit '', '') (map title (take 2 (drop 1 searchResults)))
                     else [])
           \<and> (if truthy (fullurl a) then fullurl a = Some url
              else \<exists>e. encodeURIComponent
                         (map (\<lambda>c. if c = 0x20 then 0x5F else c) (pageTitle a)) = Some e
                       \<and> url = lit ''https://en.wikipedia.org/wiki/'' @ e)"
proof (cases "articleUrl a")
  case (Inl e)
  then show ?thesis
    using assms by (simp add: generateWikipediaResponse_def)
next
  case (Inr url)
  have u: "if truthy (fullurl a) then fullurl a = Some url
           else \<exists>e. encodeURIComponent
                       (map (\<lambda>c. if c = 0x20 then 0x5F else c) (pageTitle a)) = Some e
                     \<and> url = lit ''https://en.wikipedia.org/wiki/'' @ e"
    using Inr by (auto simp: articleUrl_def truthy_def split: option.splits if_splits)
  have "text = fst (generateConversationalResponse question (pageTitle a)
                      (extractRelevantContent (articleParagraphs (the (pageExtract a)))
                         question) rnd)
               @ [0x0A, 0x0A]
               @ lit ''**'' @ [0xF0, 0x178, 0x201C, 0x161]
               @ lit '' Sources & Further Reading:**'' @ [0x0A]
               @ [0xE2, 0x20AC, 0xA2] @ lit '' ['' @ pageTitle a @ lit '' on Wikipedia](''
               @ url @ lit '')'' @ [0x0A]
               @ (if 1 < length searchResults
                  then [0x0A] @ lit ''**'' @ [0xF0, 0x178, 0x201D, 0x2014]
                       @ lit '' You might also be interested in:** ''
                       @ join (lit '', '') (map title (take 2 (drop 1 searchResults)))
                  else [])"
    using generateWikipediaResponse_article [OF assms(1) Inr, of question searchResults rnd]
      assms(2)
    by (simp add: sourcesHeader_def sourceBullet_def relatedLine_def booksMark_def
          bulletMark_def linkMark_def nl_def)
  with u show ?thesis by blast
qed

theorem C5_sources_section_witness:
  "truthy (pageExtract fooPage)
   \<and> generateWikipediaResponse (lit ''What is foo'') (Some fooPage)
        [fooResult, barResult, bazResult] zeros
      = Inr (fst (generateConversationalResponse (lit ''What is foo'') (lit ''Foo'')
                    (extractRelevantContent (articleParagraphs fooExtract)
                       (lit ''What is foo'')) zeros)
             @ [0x0A, 0x0A]
             @ lit ''**'' @ [0xF0, 0x178, 0x201C, 0x161]
             @ lit '' Sources & Further Reading:**'' @ [0x0A]
             @ [0xE2, 0x20AC, 0xA2] @ lit '' ['' @ lit ''Foo'' @ lit '' on Wikipedia](''
             @ lit ''https://en.wikipedia.org/wiki/Foo'' @ lit '')'' @ [0x0A]
             @ [0x0A] @ lit ''**'' @ [0xF0, 0x178, 0x201D, 0x2014]
             @ lit '' You might also be interested in:** ''
             @ lit ''Bar'' @ lit '', '' @ lit ''Baz'')"
proof -
  have ex: "truthy (pageExtract fooPage)"
    by code_simp
  have url: "articleUrl fooPage = Inr (lit ''https://en.wikipedia.org/wiki/Foo'')"
    by code_simp
  have f: "truthy (fullurl fooPage)"
      "fullurl fooPage = Some (lit ''https://en.wikipedia.org/wiki/Foo'')"
      "pageTitle fooPage = lit ''Foo''" "the (pageExtract fooPage) = fooExtract"
    by (simp_all add: truthy_def fooPage_def lit_def)
  have rel: "join (lit '', '') (map title (take 2 (drop 1 [fooResult, barResult, bazResult])))
             = lit ''Bar'' @ lit '', '' @ lit ''Baz''"
    by (simp add: barResult_def bazResult_def)
  from generateWikipediaResponse_article [OF ex url, of "lit ''What is foo''"
      "[fooResult, barResult, bazResult]" zeros]
  obtain out where g: "generateWikipediaResponse (lit ''What is foo'') (Some fooPage)
               [fooResult, barResult, bazResult] zeros = Inr out"
    by blast
  show ?thesis
    using C5_sources_section [OF ex g] ex f rel
    unfolding g by auto
qed

text \<open>
  C5 as it is stated fails with more than one candidate: the search returns three
  candidates, whose three titles are the \<open>sources\<close> of the answer, and the text has one
  bullet and one link, for \<open>Foo\<close>; \<open>Bar\<close> and \<open>Baz\<close> stand once each, in the line of the
  related topics.
\<close>

theorem C5_counterexample:
  "sources (fst (processQuestion trioService zeros 0 0 (lit ''foo'')))
     = Some [lit ''Foo'', lit ''Bar'', lit ''Baz'']
   \<and> response (fst (processQuestion trioService zeros 0 0 (lit ''foo''))) = Some trioText
   \<and> countOccurrences bulletMark trioText = 1
   \<and> countOccurrences (lit '']('') trioText = 1
   \<and> countOccurrences (lit ''Bar'') trioText = 1
   \<and> countOccurrences (lit ''Baz'') trioText = 1
   \<and> countOccurrences (lit ''You might also be interested in:** Bar, Baz'') trioText = 1"
proof -
  have "processQuestion trioService zeros 0 0 (lit ''foo'')
        = (\<lparr>httpStatus = 200, success = True, response = Some trioText,
            sources = Some [lit ''Foo'', lit ''Bar'', lit ''Baz''],
            processingTime = Some 0, error = None\<rparr>,
           [SearchReq (lit ''foo''), ContentReq (lit ''Foo'')])"
    by code_simp
  moreover have "countOccurrences bulletMark trioText = 1"
    by code_simp
  moreover have "countOccurrences (lit '']('') trioText = 1"
    by code_simp
  moreover have "countOccurrences (lit ''Bar'') trioText = 1"
    by code_simp
  moreover have "countOccurrences (lit ''Baz'') trioText = 1"
    by code_simp
  moreover have
    "countOccurrences (lit ''You might also be interested in:** Bar, Baz'') trioText = 1"
    by code_simp
  ultimately show ?thesis
    by simp
qed

section \<open>Scores and the fallback of the Relevance Extractor\<close>

lemma paragraphScore_foldl:
  assumes "\<forall>word \<in> set ws. 3 < length word"
  shows "foldl (\<lambda>sc word. if includesStr lp word
                           then sc + (if 3 < length word then 2 else 1) else sc) acc ws
         = acc + 2 * int (length (filter (\<lambda>word. includesStr lp word) ws))"
  using assms by (induction ws arbitrary: acc) auto

lemma paragraphScore_queryWords:
  "paragraphScore (queryWords question) p
   = 2 * int (length (filter (\<lambda>word. includesStr (toLowerCase p) word) (queryWords question)))"
  unfolding paragraphScore_def
  by (subst paragraphScore_foldl) (auto simp: queryWords_def)

text \<open>
  C10. The score of a paragraph is twice the number of the words of the tokenized question,
  each counted as often as it stands there, that are longer than 3 characters and are
  contained in the paragraph in lower case; it is even and not negative.
\<close>

theorem C10_score_counts_with_multiplicity:
  "paragraphScore (queryWords question) p
     = 2 * int (length (filter (\<lambda>word. 3 < length word \<and> includesStr (toLowerCase p) word)
                          (splitRuns isWhiteSpace (toLowerCase question))))
   \<and> even (paragraphScore (queryWords question) p)
   \<and> 0 \<le> paragraphScore (queryWords question) p"
proof -
  have "filter (\<lambda>word. includesStr (toLowerCase p) word) (queryWords question)
        = filter (\<lambda>word. 3 < length word \<and> includesStr (toLowerCase p) word)
            (splitRuns isWhiteSpace (toLowerCase question))"
    by (simp add: queryWords_def)
  then show ?thesis
    by (simp add: paragraphScore_queryWords)
qed

theorem C10_score_counts_with_multiplicity_witness:
  "paragraphScore (queryWords (lit ''Name the name of it'')) (lit ''Its NAME is Foo'') = 4
   \<and> filter (\<lambda>word. 3 < length word \<and> includesStr (toLowerCase (lit ''Its NAME is Foo'')) word)
        (splitRuns isWhiteSpace (toLowerCase (lit ''Name the name of it'')))
      = [lit ''name'', lit ''name'']"
proof -
  have "filter (\<lambda>word. 3 < length word \<and> includesStr (toLowerCase (lit ''Its NAME is Foo'')) word)
        (splitRuns isWhiteSpace (toLowerCase (lit ''Name the name of it'')))
      = [lit ''name'', lit ''name'']"
    by code_simp
  then show ?thesis
    using C10_score_counts_with_multiplicity [of "lit ''Name the name of it''" "lit ''Its NAME is Foo''"]
    by simp
qed

lemma set_insertBy: "set (insertBy cmp x xs) = insert x (set xs)"
  by (induction xs) auto

lemma set_sortBy: "set (sortBy cmp xs) = set xs"
  unfolding sortBy_def by (induction xs) (auto simp: set_insertBy)

lemma extract_fallback:
  assumes "\<forall>p \<in> set paragraphs. \<forall>word \<in> set (queryWords question).
             \<not> includesStr (toLowerCase p) word"
  shows "extractRelevantContent paragraphs question = join blankLine (take 2 paragraphs)"
proof -
  let ?scored = "map (\<lambda>p. \<lparr>paragraph' = trim p,
                            score = paragraphScore (queryWords question) p\<rparr>) paragraphs"
  let ?selected = "take 3 (sortBy (\<lambda>a b. score b - score a) ?scored)"
  have zero: "paragraphScore (queryWords question) p = 0" if "p \<in> set paragraphs" for p
  proof -
    have "filter (\<lambda>word. includesStr (toLowerCase p) word) (queryWords question) = []"
      using assms that by (auto simp: filter_empty_conv)
    then show ?thesis by (simp add: paragraphScore_queryWords)
  qed
  have "score s = 0" if "s \<in> set ?selected" for s
  proof -
    from that have "s \<in> set ?scored"
      using set_sortBy [of "\<lambda>a b. score b - score a" ?scored] by (auto dest: in_set_takeD)
    then show ?thesis using zero by auto
  qed
  then have "case ?selected of [] \<Rightarrow> True | best # _ \<Rightarrow> score best = 0"
    by (cases ?selected) auto
  then show ?thesis
    unfolding extractRelevantContent_def Let_def
    by (cases ?selected) auto
qed

text \<open>
  C6. When no paragraph of the extract that passes the length filter contains, in lower
  case, a word of the question, the Relevance Extractor returns the first two of these
  paragraphs in their order, joined by a blank line (all of them when there are fewer).
\<close>

theorem C6_no_match_falls_back:
  assumes "\<forall>p \<in> set (articleParagraphs ex). \<forall>word \<in> set (queryWords question).
             \<not> includesStr (toLowerCase p) word"
  shows "extractRelevantContent (articleParagraphs ex) question
         = join blankLine (take 2 (articleParagraphs ex))"
  using assms by (rule extract_fallback)

theorem C6_no_match_falls_back_witness:
  "queryWords (lit ''Quantum computing'') = [lit ''quantum'', lit ''computing'']
   \<and> extractRelevantContent (articleParagraphs fooExtract) (lit ''Quantum computing'')
       = lit ''Foo is a placeholder name used in computer programming examples.'' @ nl @ nl
         @ lit ''The word has been common in technical writing since the sixties.''"
proof -
  have q: "queryWords (lit ''Quantum computing'') = [lit ''quantum'', lit ''computing'']"
    by code_simp
  have ps: "articleParagraphs fooExtract
            = [lit ''Foo is a placeholder name used in computer programming examples.'',
               lit ''The word has been common in technical writing since the sixties.'']"
    by code_simp
  have h: "\<forall>p \<in> set (articleParagraphs fooExtract).
      \<forall>word \<in> set (queryWords (lit ''Quantum computing'')).
        \<not> includesStr (toLowerCase p) word"
    unfolding q ps by code_simp
  show ?thesis
    using C6_no_match_falls_back [OF h] q
    by (simp add: ps blankLine_def)
qed

section \<open>The Resolver\<close>

lemma replaceWord_no_match:
  assumes "\<forall>i < length s.
             \<not> wordMatchAt wrong (if i = 0 then prev else Some (s ! (i - 1))) (drop i s)"
  shows "replaceWord wrong right prev s = s"
  using assms
proof (induction s arbitrary: prev)
  case Nil
  then show ?case by simp
next
  case (Cons c cs)
  from Cons.prems have here: "\<not> wordMatchAt wrong prev (c # cs)"
    by (auto dest: spec [of _ 0])
  have "\<not> wordMatchAt wrong (if i = 0 then Some c else Some (cs ! (i - 1))) (drop i cs)"
    if "i < length cs" for i
  proof -
    have "\<not> wordMatchAt wrong (if Suc i = 0 then prev else Some ((c # cs) ! (Suc i - 1)))
            (drop (Suc i) (c # cs))"
      using Cons.prems that by (auto simp del: drop_Suc_Cons nth_Cons_Suc)
    then show ?thesis
      by (cases i) auto
  qed
  then have "replaceWord wrong right (Some c) cs = cs"
    using Cons.IH [of "Some c"] by simp
  with here show ?case by simp
qed

lemma replaceWord_not_occurring:
  "\<not> occursAsWord wrong s \<Longrightarrow> replaceWord wrong right None s = s"
  by (rule replaceWord_no_match) (auto simp: occursAsWord_def)

lemma corrections_not_occurring:
  assumes "\<forall>(wrong, right) \<in> set cs. \<not> occursAsWord wrong s"
  shows "foldl (\<lambda>corrected (wrong, right). replaceWord wrong right None corrected) s cs = s"
  using assms by (induction cs) (auto simp: replaceWord_not_occurring)

lemma correctCommonMisspellings_lower:
  "noMisspelling (toLowerCase query) \<Longrightarrow> correctCommonMisspellings query = toLowerCase query"
  unfolding correctCommonMisspellings_def noMisspelling_def
  by (rule corrections_not_occurring)

text \<open>
  C7, as amended. When the suggestion request is answered without a first suggestion that
  is not empty, and no misspelling of the dictionary occurs as a whole word in the query
  in lower case, the Resolver returns the query in lower case; so it returns the query as
  it was exactly when the query is its own lower-case form.
\<close>

theorem C7_unmapped_query_is_lowercased:
  assumes "encodeURIComponent query \<noteq> None"
    and "opensearch w query = Response status suggestions"
    and "suggestions = [] \<or> hd suggestions = []"
    and "noMisspelling (toLowerCase query)"
  shows "fst (attemptSpellCorrection w query) = toLowerCase query
         \<and> (fst (attemptSpellCorrection w query) = query \<longleftrightarrow> toLowerCase query = query)"
  using assms correctCommonMisspellings_lower [OF assms(4)]
  by (auto simp: attemptSpellCorrection_def split: list.splits)

theorem C7_unmapped_query_is_lowercased_witness:
  "encodeURIComponent (lit ''Okapi'') \<noteq> None
   \<and> opensearch silent (lit ''Okapi'') = Response 200 []
   \<and> toLowerCase (lit ''Okapi'') = lit ''okapi''
   \<and> fst (attemptSpellCorrection silent (lit ''Okapi'')) = lit ''okapi''"
proof -
  have h1: "encodeURIComponent (lit ''Okapi'') \<noteq> None"
    by code_simp
  have h2: "opensearch silent (lit ''Okapi'') = Response 200 []"
    by (simp add: silent_def)
  have h3: "[] = ([] :: jsstring list) \<or> hd ([] :: jsstring list) = []"
    by simp
  have l: "toLowerCase (lit ''Okapi'') = lit ''okapi''"
    by code_simp
  have h4: "noMisspelling (toLowerCase (lit ''Okapi''))"
    unfolding l by code_simp
  show ?thesis
    using C7_unmapped_query_is_lowercased [OF h1 h2 h3 h4] h1 h2 l
    by simp
qed

text \<open>
  C7 as it is stated fails on a query with a capital letter: no misspelling occurs in
  \<open>Zebra\<close>, the service suggests nothing, and the Resolver returns \<open>zebra\<close>.
\<close>

theorem C7_counterexample:
  "noMisspelling (lit ''Zebra'')
   \<and> encodeURIComponent (lit ''Zebra'') \<noteq> None
   \<and> opensearch silent (lit ''Zebra'') = Response 200 []
   \<and> fst (attemptSpellCorrection silent (lit ''Zebra'')) \<noteq> lit ''Zebra''"
proof -
  have "noMisspelling (lit ''Zebra'')"
    by code_simp
  moreover have "encodeURIComponent (lit ''Zebra'') \<noteq> None"
    by code_simp
  moreover have "fst (attemptSpellCorrection silent (lit ''Zebra'')) \<noteq> lit ''Zebra''"
    by code_simp
  ultimately show ?thesis
    by (simp add: silent_def)
qed

text \<open>
  C8, as amended. When the suggestion request cannot be made or throws, the Resolver
  returns the query as it is, and the dictionary is not applied. When the request is
  answered, with whatever status, without a first suggestion that is not empty, the result
  is the query corrected by the dictionary. (The Resolver is a total function: it never
  raises.)
\<close>

theorem C8_thrown_failure_returns_query:
  "(encodeURIComponent query = None \<or> opensearch w query = Throws m \<longrightarrow>
      fst (attemptSpellCorrection w query) = query)
   \<and> (encodeURIComponent query \<noteq> None \<and> opensearch w query = Response status suggestions
       \<and> (suggestions = [] \<or> hd suggestions = []) \<longrightarrow>
      fst (attemptSpellCorrection w query) = correctCommonMisspellings query)"
  by (auto simp: attemptSpellCorrection_def split: option.splits list.splits)

theorem C8_thrown_failure_returns_query_witness:
  "opensearch offline (lit ''phisics'') = Throws (lit ''fetch failed'')
   \<and> fst (attemptSpellCorrection offline (lit ''phisics'')) = lit ''phisics''
   \<and> encodeURIComponent (lit ''phisics'') \<noteq> None
   \<and> opensearch unavailable (lit ''phisics'') = Response 503 []
   \<and> fst (attemptSpellCorrection unavailable (lit ''phisics''))
       = correctCommonMisspellings (lit ''phisics'')"
proof -
  have a: "opensearch offline (lit ''phisics'') = Throws (lit ''fetch failed'')"
    by (simp add: offline_def)
  have b: "encodeURIComponent (lit ''phisics'') \<noteq> None"
    by code_simp
  have c: "opensearch unavailable (lit ''phisics'') = Response 503 []"
    by (simp add: unavailable_def)
  show ?thesis
    using C8_thrown_failure_returns_query [of "lit ''phisics''" offline "lit ''fetch failed''" 0 "[]"]
      C8_thrown_failure_returns_query [of "lit ''phisics''" unavailable "[]" 503 "[]"]
      a b c
    by simp
qed

text \<open>
  C8 as it is stated fails where the request throws: for \<open>phisics\<close> the Resolver returns
  \<open>phisics\<close>, and the dictionary would give \<open>physics\<close>.
\<close>

theorem C8_counterexample:
  "opensearch offline (lit ''phisics'') = Throws (lit ''fetch failed'')
   \<and> fst (attemptSpellCorrection offline (lit ''phisics''))
       \<noteq> correctCommonMisspellings (lit ''phisics'')"
proof -
  have "correctCommonMisspellings (lit ''phisics'') = lit ''physics''"
    by code_simp
  moreover have "fst (attemptSpellCorrection offline (lit ''phisics'')) = lit ''phisics''"
    by code_simp
  moreover have "lit ''phisics'' \<noteq> lit ''physics''"
    by code_simp
  ultimately show ?thesis
    by (simp add: offline_def)
qed

section \<open>Two runs on the same answers of the service\<close>



end
